theory Spec2Isabelle
  imports Main "HOL-Library.AList"
begin

section \<open>netmon\_dual.py: a shallow embedding\<close>

text \<open>
  The program probes each configured network interface through external commands,
  writes one CSV row per tick to a daily file and, when some interface is healthy,
  hands that file to the Azure upload. The embedding keeps the source's function
  names. Everything the program obtains from outside (the outcome of a command, the
  clock, the process environment, the blob service, whether a file can be opened) is a
  field of a \<open>world\<close> value that the functions take as their first argument.

  A Python \<open>str\<close> is a \<open>string\<close>, each \<open>char\<close> standing for one code point
  below 256. A Python \<open>dict\<close> is an association list with distinct keys in insertion
  order; \<open>d[k] = v\<close> is \<open>AList.update k v d\<close>, which overwrites in place or
  appends at the end, as the dictionary does.
\<close>

subsection \<open>Values and exceptions\<close>

datatype pyval = PInt int | PStr string

datatype py_error = NameError string | KeyError string | OSError string

type_synonym pydict = "(string \<times> pyval) list"

text \<open>The result of \<open>subprocess.run\<close>: the exit status and the captured standard output.\<close>

record proc =
  returncode :: int
  stdout :: string

datatype credential = ConnectionString string | SasToken string string

text \<open>
  The world of one tick. \<open>w_run cmd timeout\<close> is \<open>None\<close> when \<open>subprocess.run\<close>
  raises (time-out, missing executable, undecodable output). \<open>w_int\<close> and \<open>w_float\<close>
  are Python's \<open>int(s)\<close> and \<open>float(s)\<close>, \<open>None\<close> for \<open>ValueError\<close>; the type
  \<open>'f\<close> stands for Python's floats, \<open>w_times1000\<close> for \<open>x * 1000.0\<close> and
  \<open>w_fmt2f\<close> for the format \<open>{x:.2f}\<close>. \<open>w_blob cred container blob\<close> is the
  whole guarded block of the upload: \<open>None\<close> when it completes, \<open>Some e\<close> when it
  raises an exception whose text is \<open>e\<close>. \<open>w_can_open path\<close> says whether opening
  \<open>path\<close> for append succeeds.
\<close>

record 'f world =
  w_run :: "string list \<Rightarrow> int \<Rightarrow> proc option"
  w_int :: "string \<Rightarrow> int option"
  w_float :: "string \<Rightarrow> 'f option"
  w_times1000 :: "'f \<Rightarrow> 'f"
  w_fmt2f :: "'f \<Rightarrow> string"
  w_now :: string
  w_today :: string
  w_getenv :: "string \<Rightarrow> string option"
  w_blob :: "credential \<Rightarrow> string \<Rightarrow> string \<Rightarrow> string option"
  w_can_open :: "string \<Rightarrow> bool"
  w_url2check :: string

subsection \<open>Settings\<close>

definition IFACES :: "string list" where
  "IFACES = [''eth0'', ''wlan0'']"

definition PUBLIC_IP_URL :: string where
  "PUBLIC_IP_URL = ''https://api.ipify.org''"

text \<open>
  The module never binds the name \<open>AZURE_ACCOUNT_DEFAULT\<close> that \<open>azure_upload\<close>
  reads: evaluating it raises \<open>NameError\<close>.
\<close>

definition AZURE_ACCOUNT_DEFAULT :: "py_error + string" where
  "AZURE_ACCOUNT_DEFAULT = Inl (NameError ''AZURE_ACCOUNT_DEFAULT'')"

subsection \<open>The string methods the source uses\<close>

definition is_space :: "char \<Rightarrow> bool" where
  "is_space c = (let n = (of_char c :: nat) in
     (9 \<le> n \<and> n \<le> 13) \<or> (28 \<le> n \<and> n \<le> 32) \<or> n = 133 \<or> n = 160)"

definition is_linebreak :: "char \<Rightarrow> bool" where
  "is_linebreak c = (let n = (of_char c :: nat) in
     (10 \<le> n \<and> n \<le> 13) \<or> (28 \<le> n \<and> n \<le> 30) \<or> n = 133)"

definition strip :: "string \<Rightarrow> string" where
  "strip s = rev (dropWhile is_space (rev (dropWhile is_space s)))"

definition startswith :: "string \<Rightarrow> string \<Rightarrow> bool" where
  "startswith s pre = (take (length pre) s = pre)"

text \<open>\<open>sub in s\<close>\<close>

fun contains :: "string \<Rightarrow> string \<Rightarrow> bool" where
  "contains sub [] = (sub = [])"
| "contains sub (c # cs) = (startswith (c # cs) sub \<or> contains sub cs)"

text \<open>\<open>s.split()\<close>: the maximal runs of non-space characters.\<close>

fun split_ws_aux :: "string \<Rightarrow> string \<Rightarrow> string list" where
  "split_ws_aux cur [] = (if cur = [] then [] else [rev cur])"
| "split_ws_aux cur (c # cs) =
     (if is_space c
      then (if cur = [] then split_ws_aux [] cs else rev cur # split_ws_aux [] cs)
      else split_ws_aux (c # cur) cs)"

definition split_ws :: "string \<Rightarrow> string list" where
  "split_ws s = split_ws_aux [] s"

text \<open>\<open>s.splitlines()\<close>: a carriage return followed by a line feed is one boundary.\<close>

fun splitlines_aux :: "string \<Rightarrow> string \<Rightarrow> string list" where
  "splitlines_aux cur [] = (if cur = [] then [] else [rev cur])"
| "splitlines_aux cur [c] = (if is_linebreak c then [rev cur] else [rev (c # cur)])"
| "splitlines_aux cur (c # d # cs) =
     (if c = char_of (13 :: nat) \<and> d = char_of (10 :: nat) then rev cur # splitlines_aux [] cs
      else if is_linebreak c then rev cur # splitlines_aux [] (d # cs)
      else splitlines_aux (c # cur) (d # cs))"

definition splitlines :: "string \<Rightarrow> string list" where
  "splitlines s = splitlines_aux [] s"

text \<open>
  \<open>find_sub sep s\<close> cuts \<open>s\<close> at the first occurrence of \<open>sep\<close>; \<open>py_split sep s\<close>
  is \<open>s.split(sep)\<close> for a separator that is not empty (the source only splits at
  literals).
\<close>

fun find_sub :: "string \<Rightarrow> string \<Rightarrow> (string \<times> string) option" where
  "find_sub sep [] = (if sep = [] then Some ([], []) else None)"
| "find_sub sep (c # cs) =
     (if startswith (c # cs) sep then Some ([], drop (length sep) (c # cs))
      else (case find_sub sep cs of None \<Rightarrow> None | Some (b, a) \<Rightarrow> Some (c # b, a)))"

function py_split :: "string \<Rightarrow> string \<Rightarrow> string list" where
  "py_split sep s =
     (if sep = [] then [s]
      else (case find_sub sep s of None \<Rightarrow> [s] | Some (b, a) \<Rightarrow> b # py_split sep a))"
  by pat_completeness auto
termination
proof (relation "measure (\<lambda>(sep, s). length s)")
  show "wf (measure (\<lambda>(sep, s). length s))"
    by simp
next
  fix sep s :: string and x2 :: "string \<times> string" and b a :: string
  assume sep: "sep \<noteq> []" and found: "find_sub sep s = Some x2" and x2: "(b, a) = x2"
  have shorter: "find_sub sep t = Some (b', a') \<Longrightarrow> length a' < length t" for t b' a'
  proof (induction t arbitrary: b' a')
    case Nil
    with sep show ?case by simp
  next
    case (Cons c cs)
    show ?case
    proof (cases "startswith (c # cs) sep")
      case True
      with Cons.prems sep show ?thesis by (cases sep) auto
    next
      case False
      with Cons.prems obtain b'' where "find_sub sep cs = Some (b'', a')"
        by (auto split: option.splits)
      from Cons.IH [OF this] show ?thesis by simp
    qed
  qed
  from found x2 have "find_sub sep s = Some (b, a)" by simp
  from shorter [OF this] show "((sep, a), (sep, s)) \<in> measure (\<lambda>(sep, s). length s)"
    by simp
qed

declare py_split.simps [simp del]

text \<open>\<open>str(n)\<close> for an integer.\<close>

fun str_nat :: "nat \<Rightarrow> string" where
  "str_nat n =
     (if n < 10 then [char_of (48 + n)] else str_nat (n div 10) @ [char_of (48 + n mod 10)])"

declare str_nat.simps [simp del]

definition str_int :: "int \<Rightarrow> string" where
  "str_int i = (if i < 0 then CHR ''-'' # str_nat (nat (- i)) else str_nat (nat i))"

definition str_bool :: "bool \<Rightarrow> string" where
  "str_bool b = (if b then ''True'' else ''False'')"

subsection \<open>Interface Inspector\<close>

definition iface_is_up :: "'f world \<Rightarrow> string \<Rightarrow> bool" where
  "iface_is_up w iface =
     (case w_run w [''ip'', ''link'', ''show'', ''dev'', iface] 2 of
        None \<Rightarrow> False
      | Some p \<Rightarrow> if returncode p \<noteq> 0 then False else contains ''state UP'' (stdout p))"

text \<open>
  The loop of \<open>iface_ipv4\<close> over the lines. An index out of range is an exception
  inside the \<open>try\<close>, so it gives the empty string.
\<close>

fun first_inet :: "string list \<Rightarrow> string" where
  "first_inet [] = ''''"
| "first_inet (l # ls) =
     (let line = strip l in
      if startswith line ''inet '' then
        (case split_ws line of
           _ # t # _ \<Rightarrow> (case py_split ''/'' t of a # _ \<Rightarrow> a | [] \<Rightarrow> '''')
         | _ \<Rightarrow> '''')
      else first_inet ls)"

definition iface_ipv4 :: "'f world \<Rightarrow> string \<Rightarrow> string" where
  "iface_ipv4 w iface =
     (case w_run w [''ip'', ''-4'', ''addr'', ''show'', ''dev'', iface] 2 of
        None \<Rightarrow> ''''
      | Some p \<Rightarrow> if returncode p \<noteq> 0 then '''' else first_inet (splitlines (stdout p)))"

text \<open>The loop of \<open>gateway_for_iface\<close>: the token after the first \<open>via\<close> that has one.\<close>

fun via_next :: "string list \<Rightarrow> string" where
  "via_next (tok # nxt # rest) = (if tok = ''via'' then nxt else via_next (nxt # rest))"
| "via_next _ = ''''"

definition gateway_for_iface :: "'f world \<Rightarrow> string \<Rightarrow> string" where
  "gateway_for_iface w iface =
     (case w_run w [''ip'', ''route'', ''show'', ''default'', ''dev'', iface] 2 of
        None \<Rightarrow> ''''
      | Some p \<Rightarrow> if returncode p \<noteq> 0 then '''' else via_next (split_ws (strip (stdout p))))"

subsection \<open>Reachability Prober\<close>

text \<open>
  The loop of \<open>ping_via_iface\<close>: only the first line with \<open>time=\<close> is read; a missing
  token or a number that does not parse leaves the round-trip time absent.
\<close>

fun first_rtt :: "'f world \<Rightarrow> string list \<Rightarrow> 'f option" where
  "first_rtt w [] = None"
| "first_rtt w (line # ls) =
     (if contains ''time='' line then
        (case py_split ''time='' line of
           _ # after # _ \<Rightarrow> (case split_ws after of rtt_str # _ \<Rightarrow> w_float w rtt_str | [] \<Rightarrow> None)
         | _ \<Rightarrow> None)
      else first_rtt w ls)"

definition ping_via_iface :: "'f world \<Rightarrow> string \<Rightarrow> string \<Rightarrow> int \<Rightarrow> bool \<times> 'f option" where
  "ping_via_iface w iface host timeout_s =
     (case w_run w [''ping'', ''-I'', iface, ''-c'', ''1'', ''-W'', str_int timeout_s, host]
             (timeout_s + 2) of
        None \<Rightarrow> (False, None)
      | Some p \<Rightarrow>
          if returncode p \<noteq> 0 then (False, None)
          else (True, first_rtt w (splitlines (stdout p))))"

definition curl_head_cmd :: "string \<Rightarrow> string \<Rightarrow> int \<Rightarrow> string list" where
  "curl_head_cmd iface url timeout_s =
     [''curl'', ''--interface'', iface, ''-I'', ''-L'', ''--max-time'', str_int timeout_s,
      ''-o'', ''/dev/null'', ''-sS'', ''-w'', ''%{http_code} %{time_total}'', url]"

definition curl_head_via_iface ::
  "'f world \<Rightarrow> string \<Rightarrow> string \<Rightarrow> int \<Rightarrow> bool \<times> 'f option \<times> int option" where
  "curl_head_via_iface w iface url timeout_s =
     (case w_run w (curl_head_cmd iface url timeout_s) (timeout_s + 2) of
        None \<Rightarrow> (False, None, None)
      | Some p \<Rightarrow>
          if returncode p \<noteq> 0 then (False, None, None)
          else (case split_ws (strip (stdout p)) of
                  [out0, out1] \<Rightarrow>
                    (case w_int w out0 of
                       None \<Rightarrow> (False, None, None)
                     | Some code \<Rightarrow>
                         (case w_float w out1 of
                            None \<Rightarrow> (False, None, None)
                          | Some t_sec \<Rightarrow>
                              (200 \<le> code \<and> code < 600, Some (w_times1000 w t_sec), Some code)))
                | _ \<Rightarrow> (False, None, None)))"

definition curl_get_via_iface :: "'f world \<Rightarrow> string \<Rightarrow> string \<Rightarrow> int \<Rightarrow> string" where
  "curl_get_via_iface w iface url timeout_s =
     (case w_run w [''curl'', ''--interface'', iface, ''-L'', ''--max-time'', str_int timeout_s,
                    ''-sS'', url] (timeout_s + 2) of
        None \<Rightarrow> ''''
      | Some p \<Rightarrow> if returncode p \<noteq> 0 then '''' else strip (stdout p))"

subsection \<open>Interface Health Evaluator\<close>

text \<open>The local variables of \<open>check_iface\<close> at its \<open>return\<close>.\<close>

record 'f iface_vars =
  v_up :: bool
  v_ip4 :: string
  v_gw :: string
  v_local_ok :: bool
  v_gw_rtt :: "'f option"
  v_nos_ok :: bool
  v_nos_ms :: "'f option"
  v_nos_code :: "int option"
  v_public_ip :: string
  v_iface_ok :: bool

definition check_iface_vars :: "'f world \<Rightarrow> string \<Rightarrow> 'f iface_vars" where
  "check_iface_vars w iface =
     (let up = iface_is_up w iface;
          ip4 = (if up then iface_ipv4 w iface else '''');
          gw = (if ip4 \<noteq> '''' then gateway_for_iface w iface else '''');
          (local_ok, gw_rtt) = (if gw \<noteq> '''' then ping_via_iface w iface gw 1 else (False, None));
          (nos_ok, nos_ms, nos_code) =
            (if local_ok then curl_head_via_iface w iface (w_url2check w) 6
             else (False, None, None));
          public_ip =
            (if local_ok \<and> nos_ok then curl_get_via_iface w iface PUBLIC_IP_URL 6 else '''');
          iface_ok = (local_ok \<and> nos_ok)
      in \<lparr>v_up = up, v_ip4 = ip4, v_gw = gw, v_local_ok = local_ok, v_gw_rtt = gw_rtt,
          v_nos_ok = nos_ok, v_nos_ms = nos_ms, v_nos_code = nos_code,
          v_public_ip = public_ip, v_iface_ok = iface_ok\<rparr>)"

definition int_of_bool :: "bool \<Rightarrow> int" where
  "int_of_bool b = (if b then 1 else 0)"

text \<open>The dictionary literal that \<open>check_iface\<close> returns.\<close>

definition result_dict :: "'f world \<Rightarrow> 'f iface_vars \<Rightarrow> pydict" where
  "result_dict w v =
     [(''iface_up'', PInt (int_of_bool (v_up v))),
      (''iface_ipv4'', PStr (v_ip4 v)),
      (''gateway'', PStr (v_gw v)),
      (''local_ok'', PInt (int_of_bool (v_local_ok v))),
      (''gateway_rtt_ms'', PStr (case v_gw_rtt v of Some x \<Rightarrow> w_fmt2f w x | None \<Rightarrow> '''')),
      (''nos_ok'', PInt (int_of_bool (v_nos_ok v))),
      (''nos_status'', (case v_nos_code v of Some c \<Rightarrow> PInt c | None \<Rightarrow> PStr '''')),
      (''nos_response_ms'', PStr (case v_nos_ms v of Some x \<Rightarrow> w_fmt2f w x | None \<Rightarrow> '''')),
      (''public_ip'', PStr (v_public_ip v)),
      (''iface_ok'', PInt (int_of_bool (v_iface_ok v)))]"

definition check_iface :: "'f world \<Rightarrow> string \<Rightarrow> pydict" where
  "check_iface w iface = result_dict w (check_iface_vars w iface)"

text \<open>\<open>d[k]\<close>, which raises \<open>KeyError\<close> for a missing key.\<close>

definition getitem :: "(string \<times> 'v) list \<Rightarrow> string \<Rightarrow> py_error + 'v" where
  "getitem d k = (case map_of d k of None \<Rightarrow> Inl (KeyError k) | Some v \<Rightarrow> Inr v)"

subsection \<open>Aggregator\<close>

type_synonym results = "(string \<times> pydict) list"

text \<open>The comprehension \<open>{iface: check_iface(iface) for iface in IFACES}\<close>.\<close>

definition build_results :: "'f world \<Rightarrow> string list \<Rightarrow> results" where
  "build_results w ifaces = fold (\<lambda>iface. AList.update iface (check_iface w iface)) ifaces []"

text \<open>\<open>any(results[i]["iface_ok"] == 1 for i in ifaces)\<close>, which stops at the first hit.\<close>

fun any_iface_ok :: "results \<Rightarrow> string list \<Rightarrow> py_error + bool" where
  "any_iface_ok results [] = Inr False"
| "any_iface_ok results (i # ifaces) =
     (case getitem results i of
        Inl e \<Rightarrow> Inl e
      | Inr r \<Rightarrow>
          (case getitem r ''iface_ok'' of
             Inl e \<Rightarrow> Inl e
           | Inr v \<Rightarrow> if v = PInt 1 then Inr True else any_iface_ok results ifaces))"

text \<open>\<open>results.get(name, {}).get("iface_ok") == 1\<close>\<close>

definition get_iface_ok :: "results \<Rightarrow> string \<Rightarrow> bool" where
  "get_iface_ok results name =
     (case map_of results name of
        None \<Rightarrow> False
      | Some r \<Rightarrow> map_of r ''iface_ok'' = Some (PInt 1))"

definition preferred_iface :: "results \<Rightarrow> string" where
  "preferred_iface results =
     (if get_iface_ok results ''eth0'' then ''eth0''
      else if get_iface_ok results ''wlan0'' then ''wlan0'' else [])"

text \<open>The inner loop \<open>for k, v in r.items(): row[f"{iface}_{k}"] = v\<close> and the outer one.\<close>

definition add_iface_columns :: "string \<Rightarrow> pydict \<Rightarrow> pydict \<Rightarrow> pydict" where
  "add_iface_columns iface r row = fold (\<lambda>(k, v). AList.update (iface @ ''_'' @ k) v) r row"

fun flatten :: "results \<Rightarrow> string list \<Rightarrow> pydict \<Rightarrow> py_error + pydict" where
  "flatten results [] row = Inr row"
| "flatten results (iface # ifaces) row =
     (case getitem results iface of
        Inl e \<Rightarrow> Inl e
      | Inr r \<Rightarrow> flatten results ifaces (add_iface_columns iface r row))"

text \<open>
  The part of the loop body of \<open>main\<close> that computes: the overall flag, the preferred
  interface and the flattened row.
\<close>

definition tick_eval :: "'f world \<Rightarrow> py_error + (bool \<times> string \<times> pydict)" where
  "tick_eval w =
     (let ts = w_now w;
          results = build_results w IFACES
      in case any_iface_ok results IFACES of
           Inl e \<Rightarrow> Inl e
         | Inr overall_ok \<Rightarrow>
             (let preferred = preferred_iface results
              in case flatten results IFACES
                        [(''timestamp'', PStr ts),
                         (''overall_ok'', PInt (int_of_bool overall_ok)),
                         (''preferred_iface'', PStr preferred)] of
                   Inl e \<Rightarrow> Inl e
                 | Inr row \<Rightarrow> Inr (overall_ok, preferred, row)))"

subsection \<open>Daily Log Store\<close>

text \<open>
  A CSV file is the list of the rows written to it, a row the list of its cells.
  \<open>writeheader\<close> writes the field names, \<open>writerow\<close> the value of each field name
  (the writer's fill value, the empty string, for a name the row lacks).
\<close>

type_synonym csv_store = "string \<rightharpoonup> pyval list list"

definition header_cells :: "pydict \<Rightarrow> pyval list" where
  "header_cells row = map PStr (map fst row)"

definition row_cells :: "pydict \<Rightarrow> pyval list" where
  "row_cells row =
     map (\<lambda>k. case map_of row k of Some v \<Rightarrow> v | None \<Rightarrow> PStr []) (map fst row)"

definition log_path_for_today :: "'f world \<Rightarrow> string \<Rightarrow> string" where
  "log_path_for_today w log_dir = log_dir @ ''/'' @ ''netmon_'' @ w_today w @ ''.csv''"

definition append_row :: "'f world \<Rightarrow> string \<Rightarrow> pydict \<Rightarrow> csv_store \<Rightarrow> py_error + csv_store" where
  "append_row w csv_path row files =
     (let new_file = (files csv_path = None)
      in if \<not> w_can_open w csv_path then Inl (OSError csv_path)
         else
           (let old = (case files csv_path of None \<Rightarrow> [] | Some rows \<Rightarrow> rows);
                header = (if new_file then [header_cells row] else [])
            in Inr (files(csv_path \<mapsto> old @ header @ [row_cells row]))))"

subsection \<open>Upload Notifier\<close>

definition getenv :: "'f world \<Rightarrow> string \<Rightarrow> string \<Rightarrow> string" where
  "getenv w name dflt = (case w_getenv w name of None \<Rightarrow> dflt | Some v \<Rightarrow> v)"

text \<open>\<open>Path.name\<close>: the last component.\<close>

definition path_name :: "string \<Rightarrow> string" where
  "path_name p = rev (takeWhile (\<lambda>c. c \<noteq> CHR ''/'') (rev p))"

definition quoted :: "string \<Rightarrow> string" where
  "quoted s = [CHR 0x27] @ s @ [CHR 0x27]"

text \<open>The body of the \<open>try\<close> once the client is chosen, with its \<open>except\<close>.\<close>

definition blob_attempt :: "'f world \<Rightarrow> credential \<Rightarrow> string \<Rightarrow> string \<Rightarrow> bool \<times> string" where
  "blob_attempt w cred container blob_name =
     (case w_blob w cred container blob_name of
        None \<Rightarrow> (True, ''Uploaded to container '' @ quoted container @ '' as '' @ quoted blob_name)
      | Some e \<Rightarrow> (False, ''Azure upload failed: '' @ e))"

text \<open>
  The body of \<open>azure_upload\<close>, given what evaluating the name
  \<open>AZURE_ACCOUNT_DEFAULT\<close> yields at the point where the source reads it: after the
  container check and the two credential reads, before the \<open>try\<close>.
\<close>

definition azure_upload_body ::
  "py_error + string \<Rightarrow> 'f world \<Rightarrow> string \<Rightarrow> py_error + (bool \<times> string)" where
  "azure_upload_body account_default w local_file =
     (let container = strip (getenv w ''AZURE_CONTAINER'' [])
      in if container = [] then Inr (False, ''AZURE_CONTAINER not set'')
         else
           (let conn_str = strip (getenv w ''AZURE_STORAGE_CONNECTION_STRING'' []);
                sas = strip (getenv w ''AZURE_STORAGE_SAS_TOKEN'' [])
            in case account_default of
                 Inl e \<Rightarrow> Inl e
               | Inr dflt \<Rightarrow>
                   (let account = strip (getenv w ''AZURE_STORAGE_ACCOUNT'' dflt)
                    in if conn_str \<noteq> [] then
                         Inr (blob_attempt w (ConnectionString conn_str) container
                                (path_name local_file))
                       else if sas \<noteq> [] then
                         Inr (blob_attempt w
                                (SasToken (''https://'' @ account @ ''.blob.core.windows.net'') sas)
                                container (path_name local_file))
                       else
                         Inr (False,
                              ''No AZURE_STORAGE_CONNECTION_STRING or AZURE_STORAGE_SAS_TOKEN set''))))"

definition azure_upload :: "'f world \<Rightarrow> string \<Rightarrow> py_error + (bool \<times> string)" where
  "azure_upload w local_file = azure_upload_body AZURE_ACCOUNT_DEFAULT w local_file"

subsection \<open>One tick of the loop of \<open>main\<close>\<close>

text \<open>
  What a tick changes: the CSV files, the lines written to \<open>netmon_upload.log\<close>, the
  files handed to \<open>azure_upload\<close> (in call order) and the lines printed.
\<close>

record sys =
  csv_files :: csv_store
  upload_log :: "string list"
  upload_calls :: "string list"
  console :: "string list"

definition audit_line :: "string \<Rightarrow> string \<Rightarrow> bool \<Rightarrow> string \<Rightarrow> bool \<Rightarrow> string \<Rightarrow> string" where
  "audit_line ts name overall_ok preferred ok msg =
     ts @ '' | '' @ name @ '' | overall_ok='' @ str_bool overall_ok @ '' | preferred='' @ preferred
       @ '' | '' @ str_bool ok @ '' | '' @ msg @ [CHR 0x0A]"

text \<open>
  The loop body. The result is the state reached and the exception, if any, that left
  the body; the state is the one at the raise.
\<close>

definition tick :: "'f world \<Rightarrow> string \<Rightarrow> sys \<Rightarrow> sys \<times> py_error option" where
  "tick w log_dir s =
     (case tick_eval w of
        Inl e \<Rightarrow> (s, Some e)
      | Inr (overall_ok, preferred, row) \<Rightarrow>
          (let ts = w_now w;
               csv_path = log_path_for_today w log_dir;
               s1 = s\<lparr>console := console s @ [ts @ '' - add results to '' @ csv_path]\<rparr>
           in case append_row w csv_path row (csv_files s1) of
                Inl e \<Rightarrow> (s1, Some e)
              | Inr files' \<Rightarrow>
                  (let s2 = s1\<lparr>csv_files := files'\<rparr>
                   in if overall_ok then
                        (let s3 = s2\<lparr>upload_calls := upload_calls s2 @ [csv_path]\<rparr>
                         in case azure_upload w csv_path of
                              Inl e \<Rightarrow> (s3, Some e)
                            | Inr (ok, msg) \<Rightarrow>
                                if w_can_open w (log_dir @ ''/netmon_upload.log'') then
                                  (s3\<lparr>upload_log := upload_log s3 @
                                     [audit_line ts (path_name csv_path) overall_ok preferred
                                        ok msg]\<rparr>, None)
                                else (s3, None))
                      else (s2, None))))"

text \<open>A sequence of calls of \<open>append_row\<close> on one path; an exception ends it.\<close>

fun append_rows :: "('f world \<times> pydict) list \<Rightarrow> string \<Rightarrow> csv_store \<Rightarrow> py_error + csv_store" where
  "append_rows [] csv_path files = Inr files"
| "append_rows ((w, row) # calls) csv_path files =
     (case append_row w csv_path row files of
        Inl e \<Rightarrow> Inl e
      | Inr files' \<Rightarrow> append_rows calls csv_path files')"

subsection \<open>Example worlds\<close>

text \<open>
  Concrete worlds on which the theorems below are instantiated. Floats are counted in
  thousandths; \<open>ex_int\<close> reads plain decimal digits.
\<close>

definition ex_int :: "string \<Rightarrow> int option" where
  "ex_int s =
     (if s \<noteq> [] \<and> list_all (\<lambda>c. 48 \<le> (of_char c :: int) \<and> (of_char c :: int) \<le> 57) s
      then Some (foldl (\<lambda>a c. 10 * a + (of_char c - 48)) 0 s) else None)"

definition ex_float :: "string \<Rightarrow> int option" where
  "ex_float s = (if s = ''7.23'' then Some 7230 else if s = ''0.120'' then Some 120 else None)"

definition ex_fmt2f :: "int \<Rightarrow> string" where
  "ex_fmt2f x =
     (let c = (x mod 1000) div 10
      in str_int (x div 1000) @ ''.'' @ (if c < 10 then ''0'' else []) @ str_int c)"

text \<open>Every command exits with status 1: no interface is up.\<close>

definition ex_run_down :: "string list \<Rightarrow> int \<Rightarrow> proc option" where
  "ex_run_down cmd t = Some \<lparr>returncode = 1, stdout = []\<rparr>"

text \<open>
  \<open>eth0\<close> is up with an address and a gateway that answers, and the probed URL
  answers 404; every other command exits with status 1.
\<close>

definition ex_run_eth0 :: "string list \<Rightarrow> int \<Rightarrow> proc option" where
  "ex_run_eth0 cmd t =
     (if cmd = [''ip'', ''link'', ''show'', ''dev'', ''eth0''] then
        Some \<lparr>returncode = 0, stdout = ''2: eth0: <BROADCAST,UP> mtu 1500 state UP mode DEFAULT''\<rparr>
      else if cmd = [''ip'', ''-4'', ''addr'', ''show'', ''dev'', ''eth0''] then
        Some \<lparr>returncode = 0,
              stdout = ''2: eth0: <BROADCAST,UP>'' @ [CHR 0x0A] @ ''    inet 192.168.1.23/24 brd 192.168.1.255''\<rparr>
      else if cmd = [''ip'', ''route'', ''show'', ''default'', ''dev'', ''eth0''] then
        Some \<lparr>returncode = 0, stdout = ''default via 192.168.1.1 proto dhcp'' @ [CHR 0x0A]\<rparr>
      else if cmd = [''ping'', ''-I'', ''eth0'', ''-c'', ''1'', ''-W'', ''1'', ''192.168.1.1''] then
        Some \<lparr>returncode = 0, stdout = ''64 bytes from 192.168.1.1: icmp_seq=1 ttl=64 time=7.23 ms''\<rparr>
      else if cmd = curl_head_cmd ''eth0'' ''https://example.org'' 6 then
        Some \<lparr>returncode = 0, stdout = ''404 0.120''\<rparr>
      else if cmd = [''curl'', ''--interface'', ''eth0'', ''-L'', ''--max-time'', ''6'', ''-sS'',
                     ''https://api.ipify.org''] then
        Some \<lparr>returncode = 0, stdout = ''203.0.113.7'' @ [CHR 0x0A]\<rparr>
      else Some \<lparr>returncode = 1, stdout = []\<rparr>)"

definition ex_world ::
  "(string list \<Rightarrow> int \<Rightarrow> proc option) \<Rightarrow> (string \<Rightarrow> string option) \<Rightarrow> int world" where
  "ex_world run env =
     \<lparr>w_run = run, w_int = ex_int, w_float = ex_float, w_times1000 = (\<lambda>x. x * 1000),
      w_fmt2f = ex_fmt2f, w_now = ''2026-11-04T12:00:00'', w_today = ''2026-11-04'',
      w_getenv = env, w_blob = (\<lambda>cred container blob. None), w_can_open = (\<lambda>path. True),
      w_url2check = ''https://example.org''\<rparr>"

definition ex_env_none :: "string \<Rightarrow> string option" where
  "ex_env_none name = None"

definition ex_env_azure :: "string \<Rightarrow> string option" where
  "ex_env_azure name =
     (if name = ''AZURE_CONTAINER'' then Some ''netmon''
      else if name = ''AZURE_STORAGE_CONNECTION_STRING'' then Some ''UseDevelopmentStorage=true''
      else None)"

definition ex_sys :: sys where
  "ex_sys = \<lparr>csv_files = Map.empty, upload_log = [], upload_calls = [], console = []\<rparr>"

definition ex_row :: "int \<Rightarrow> pydict" where
  "ex_row n = [(''timestamp'', PStr ''t''), (''overall_ok'', PInt n)]"

subsection \<open>The audit line as the specification words it\<close>

text \<open>
  Following the specification's words, not the source: a line of the upload audit log
  reads \<open>timestamp | filename | overall_ok=<0|1> | preferred=<iface|empty> | <upload_ok> |
  <message>\<close>. The predicate checks the six fields and that the third is
  \<open>overall_ok=0\<close> or \<open>overall_ok=1\<close>.
\<close>

definition spec_audit_line_format :: "string \<Rightarrow> bool" where
  "spec_audit_line_format l =
     (case py_split '' | '' l of
        ts # name # overall # preferred # ok # msg # rest \<Rightarrow>
          (overall = ''overall_ok=0'' \<or> overall = ''overall_ok=1'')
          \<and> startswith preferred ''preferred=''
      | _ \<Rightarrow> False)"

section \<open>Properties\<close>

subsection \<open>Auxiliary facts about one interface evaluation\<close>

lemma ping_not_ok:
  "\<not> fst (ping_via_iface w iface host t) \<Longrightarrow> snd (ping_via_iface w iface host t) = None"
  by (auto simp: ping_via_iface_def split: option.splits if_splits)

lemma vars_fields:
  "v_up (check_iface_vars w i) = iface_is_up w i"
  "v_ip4 (check_iface_vars w i) = (if v_up (check_iface_vars w i) then iface_ipv4 w i else [])"
  "v_gw (check_iface_vars w i) =
     (if v_ip4 (check_iface_vars w i) \<noteq> [] then gateway_for_iface w i else [])"
  "v_local_ok (check_iface_vars w i) =
     (v_gw (check_iface_vars w i) \<noteq> [] \<and> fst (ping_via_iface w i (v_gw (check_iface_vars w i)) 1))"
  "v_gw_rtt (check_iface_vars w i) =
     (if v_gw (check_iface_vars w i) \<noteq> [] then snd (ping_via_iface w i (v_gw (check_iface_vars w i)) 1)
      else None)"
  "v_nos_ok (check_iface_vars w i) =
     (v_local_ok (check_iface_vars w i) \<and> fst (curl_head_via_iface w i (w_url2check w) 6))"
  "v_nos_ms (check_iface_vars w i) =
     (if v_local_ok (check_iface_vars w i) then fst (snd (curl_head_via_iface w i (w_url2check w) 6))
      else None)"
  "v_nos_code (check_iface_vars w i) =
     (if v_local_ok (check_iface_vars w i) then snd (snd (curl_head_via_iface w i (w_url2check w) 6))
      else None)"
  "v_public_ip (check_iface_vars w i) =
     (if v_nos_ok (check_iface_vars w i) then curl_get_via_iface w i PUBLIC_IP_URL 6 else [])"
  "v_iface_ok (check_iface_vars w i) =
     (v_local_ok (check_iface_vars w i) \<and> v_nos_ok (check_iface_vars w i))"
  by (simp_all add: check_iface_vars_def Let_def case_prod_unfold)

lemma vars_staged:
  "\<not> v_up (check_iface_vars w i) \<Longrightarrow> v_ip4 (check_iface_vars w i) = []"
  "v_ip4 (check_iface_vars w i) = [] \<Longrightarrow> v_gw (check_iface_vars w i) = []"
  "v_gw (check_iface_vars w i) = [] \<Longrightarrow> \<not> v_local_ok (check_iface_vars w i)"
  "\<not> v_local_ok (check_iface_vars w i) \<Longrightarrow> v_gw_rtt (check_iface_vars w i) = None"
  "\<not> v_local_ok (check_iface_vars w i) \<Longrightarrow> \<not> v_nos_ok (check_iface_vars w i)"
  "\<not> v_local_ok (check_iface_vars w i) \<Longrightarrow> v_nos_ms (check_iface_vars w i) = None"
  "\<not> v_local_ok (check_iface_vars w i) \<Longrightarrow> v_nos_code (check_iface_vars w i) = None"
  "\<not> v_nos_ok (check_iface_vars w i) \<Longrightarrow> v_public_ip (check_iface_vars w i) = []"
proof -
  show "\<not> v_up (check_iface_vars w i) \<Longrightarrow> v_ip4 (check_iface_vars w i) = []"
    by (simp add: vars_fields(2))
  show "v_ip4 (check_iface_vars w i) = [] \<Longrightarrow> v_gw (check_iface_vars w i) = []"
    by (simp add: vars_fields(3))
  show "v_gw (check_iface_vars w i) = [] \<Longrightarrow> \<not> v_local_ok (check_iface_vars w i)"
    by (simp add: vars_fields(4))
  show "\<not> v_local_ok (check_iface_vars w i) \<Longrightarrow> v_gw_rtt (check_iface_vars w i) = None"
    using ping_not_ok [of w i "v_gw (check_iface_vars w i)" 1]
    by (auto simp: vars_fields(4,5))
  show "\<not> v_local_ok (check_iface_vars w i) \<Longrightarrow> \<not> v_nos_ok (check_iface_vars w i)"
    by (simp add: vars_fields(6))
  show "\<not> v_local_ok (check_iface_vars w i) \<Longrightarrow> v_nos_ms (check_iface_vars w i) = None"
    by (simp add: vars_fields(7))
  show "\<not> v_local_ok (check_iface_vars w i) \<Longrightarrow> v_nos_code (check_iface_vars w i) = None"
    by (simp add: vars_fields(8))
  show "\<not> v_nos_ok (check_iface_vars w i) \<Longrightarrow> v_public_ip (check_iface_vars w i) = []"
    by (simp add: vars_fields(9))
qed

lemma getitem_check_iface:
  "getitem (check_iface w i) ''iface_up'' = Inr (PInt (int_of_bool (v_up (check_iface_vars w i))))"
  "getitem (check_iface w i) ''iface_ipv4'' = Inr (PStr (v_ip4 (check_iface_vars w i)))"
  "getitem (check_iface w i) ''gateway'' = Inr (PStr (v_gw (check_iface_vars w i)))"
  "getitem (check_iface w i) ''local_ok'' =
     Inr (PInt (int_of_bool (v_local_ok (check_iface_vars w i))))"
  "getitem (check_iface w i) ''gateway_rtt_ms'' =
     Inr (PStr (case v_gw_rtt (check_iface_vars w i) of Some x \<Rightarrow> w_fmt2f w x | None \<Rightarrow> []))"
  "getitem (check_iface w i) ''nos_ok'' = Inr (PInt (int_of_bool (v_nos_ok (check_iface_vars w i))))"
  "getitem (check_iface w i) ''nos_status'' =
     Inr (case v_nos_code (check_iface_vars w i) of Some c \<Rightarrow> PInt c | None \<Rightarrow> PStr [])"
  "getitem (check_iface w i) ''nos_response_ms'' =
     Inr (PStr (case v_nos_ms (check_iface_vars w i) of Some x \<Rightarrow> w_fmt2f w x | None \<Rightarrow> []))"
  "getitem (check_iface w i) ''public_ip'' = Inr (PStr (v_public_ip (check_iface_vars w i)))"
  "getitem (check_iface w i) ''iface_ok'' =
     Inr (PInt (int_of_bool (v_iface_ok (check_iface_vars w i))))"
  by (simp_all add: getitem_def check_iface_def result_dict_def)

lemma int_of_bool_eq: "(int_of_bool b = 0) = (\<not> b)" "(int_of_bool b = 1) = b"
  by (simp_all add: int_of_bool_def)

subsection \<open>The interface evaluation\<close>

text \<open>
  Claim C9. In the dictionary that \<open>check_iface\<close> returns, for every world and every
  interface name, \<open>iface_ok\<close> is 1 exactly when both \<open>local_ok\<close> and \<open>nos_ok\<close>
  are 1, and 0 otherwise: the healthy flag is the conjunction of the local and the
  remote flag.
\<close>

theorem check_iface_healthy_is_conjunction:
  "getitem (check_iface w iface) ''iface_ok'' =
     Inr (PInt (int_of_bool (getitem (check_iface w iface) ''local_ok'' = Inr (PInt 1)
                           \<and> getitem (check_iface w iface) ''nos_ok'' = Inr (PInt 1))))"
  by (simp add: getitem_check_iface vars_fields(10) int_of_bool_eq)

text \<open>
  Claim C1. The staged dependency of the fields of the dictionary that \<open>check_iface\<close>
  returns, for every world and every interface name: when \<open>iface_up\<close> is 0 the
  address and the gateway are empty, \<open>local_ok\<close> and \<open>nos_ok\<close> are 0 and the
  public address is empty; an empty address gives an empty gateway; an empty gateway
  gives \<open>local_ok = 0\<close> and no round-trip time; \<open>local_ok = 0\<close> gives \<open>nos_ok = 0\<close>
  with no status and no response time; \<open>nos_ok = 0\<close> gives an empty public address.
\<close>

theorem check_iface_staged:
  "(getitem (check_iface w iface) ''iface_up'' = Inr (PInt 0) \<longrightarrow>
      getitem (check_iface w iface) ''iface_ipv4'' = Inr (PStr [])
    \<and> getitem (check_iface w iface) ''gateway'' = Inr (PStr [])
    \<and> getitem (check_iface w iface) ''local_ok'' = Inr (PInt 0)
    \<and> getitem (check_iface w iface) ''nos_ok'' = Inr (PInt 0)
    \<and> getitem (check_iface w iface) ''public_ip'' = Inr (PStr []))
 \<and> (getitem (check_iface w iface) ''iface_ipv4'' = Inr (PStr []) \<longrightarrow>
      getitem (check_iface w iface) ''gateway'' = Inr (PStr []))
 \<and> (getitem (check_iface w iface) ''gateway'' = Inr (PStr []) \<longrightarrow>
      getitem (check_iface w iface) ''local_ok'' = Inr (PInt 0)
    \<and> getitem (check_iface w iface) ''gateway_rtt_ms'' = Inr (PStr []))
 \<and> (getitem (check_iface w iface) ''local_ok'' = Inr (PInt 0) \<longrightarrow>
      getitem (check_iface w iface) ''nos_ok'' = Inr (PInt 0)
    \<and> getitem (check_iface w iface) ''nos_status'' = Inr (PStr [])
    \<and> getitem (check_iface w iface) ''nos_response_ms'' = Inr (PStr []))
 \<and> (getitem (check_iface w iface) ''nos_ok'' = Inr (PInt 0) \<longrightarrow>
      getitem (check_iface w iface) ''public_ip'' = Inr (PStr []))"
  unfolding getitem_check_iface
  using vars_staged [of w iface]
  by (auto simp: int_of_bool_eq)

theorem check_iface_staged_witness:
  "getitem (check_iface (ex_world ex_run_down ex_env_none) ''eth0'') ''iface_up'' = Inr (PInt 0)
 \<and> getitem (check_iface (ex_world ex_run_down ex_env_none) ''eth0'') ''iface_ipv4'' = Inr (PStr [])
 \<and> getitem (check_iface (ex_world ex_run_down ex_env_none) ''eth0'') ''gateway'' = Inr (PStr [])
 \<and> getitem (check_iface (ex_world ex_run_down ex_env_none) ''eth0'') ''local_ok'' = Inr (PInt 0)
 \<and> getitem (check_iface (ex_world ex_run_down ex_env_none) ''eth0'') ''gateway_rtt_ms'' = Inr (PStr [])
 \<and> getitem (check_iface (ex_world ex_run_down ex_env_none) ''eth0'') ''nos_ok'' = Inr (PInt 0)
 \<and> getitem (check_iface (ex_world ex_run_down ex_env_none) ''eth0'') ''nos_status'' = Inr (PStr [])
 \<and> getitem (check_iface (ex_world ex_run_down ex_env_none) ''eth0'') ''nos_response_ms'' = Inr (PStr [])
 \<and> getitem (check_iface (ex_world ex_run_down ex_env_none) ''eth0'') ''public_ip'' = Inr (PStr [])"
proof -
  have down: "getitem (check_iface (ex_world ex_run_down ex_env_none) ''eth0'') ''iface_up''
      = Inr (PInt 0)"
    by code_simp
  from down check_iface_staged [of "ex_world ex_run_down ex_env_none" "''eth0''"]
  show ?thesis by blast
qed

subsection \<open>The HTTP HEAD probe\<close>

text \<open>
  Claim C3. For every world, interface, URL and time-out, \<open>curl_head_via_iface\<close>
  reports \<open>ok\<close> exactly when the command ran and exited with status 0, its stripped
  output split into exactly two fields, the first read as an integer and the second as
  a float, and the integer lies in the range from 200 up to but excluding 600 (so a 404
  or a 500 counts as reachable). When the command raised, exited with another status or
  printed anything but two such fields, the result is \<open>(False, None, None)\<close>: no
  latency and no status.
\<close>

theorem curl_head_reachable_iff:
  "(fst (curl_head_via_iface w iface url timeout_s) \<longleftrightarrow>
      (\<exists>p out0 out1 code t_sec.
          w_run w (curl_head_cmd iface url timeout_s) (timeout_s + 2) = Some p
        \<and> returncode p = 0
        \<and> split_ws (strip (stdout p)) = [out0, out1]
        \<and> w_int w out0 = Some code \<and> w_float w out1 = Some t_sec
        \<and> 200 \<le> code \<and> code < 600))
 \<and> (\<not> (\<exists>p out0 out1 code t_sec.
          w_run w (curl_head_cmd iface url timeout_s) (timeout_s + 2) = Some p
        \<and> returncode p = 0
        \<and> split_ws (strip (stdout p)) = [out0, out1]
        \<and> w_int w out0 = Some code \<and> w_float w out1 = Some t_sec) \<longrightarrow>
      curl_head_via_iface w iface url timeout_s = (False, None, None))"
proof (cases "w_run w (curl_head_cmd iface url timeout_s) (timeout_s + 2)")
  case None
  then show ?thesis by (simp add: curl_head_via_iface_def)
next
  case (Some p)
  show ?thesis
  proof (cases "returncode p = 0")
    case False
    with Some show ?thesis by (simp add: curl_head_via_iface_def)
  next
    case True
    with Some show ?thesis
      by (auto simp: curl_head_via_iface_def split: list.splits option.splits)
  qed
qed

theorem curl_head_reachable_iff_witness:
  "fst (curl_head_via_iface (ex_world ex_run_eth0 ex_env_none) ''eth0'' ''https://example.org'' 6)
 \<and> curl_head_via_iface (ex_world ex_run_eth0 ex_env_none) ''eth0'' ''https://example.org'' 6
     = (True, Some 120000, Some 404)
 \<and> w_run (ex_world ex_run_down ex_env_none) (curl_head_cmd ''eth0'' ''https://example.org'' 6)
      (6 + 2)
     = Some \<lparr>returncode = 1, stdout = []\<rparr>
 \<and> curl_head_via_iface (ex_world ex_run_down ex_env_none) ''eth0'' ''https://example.org'' 6
     = (False, None, None)"
proof -
  have run: "w_run (ex_world ex_run_eth0 ex_env_none)
      (curl_head_cmd ''eth0'' ''https://example.org'' 6) (6 + 2)
      = Some \<lparr>returncode = 0, stdout = ''404 0.120''\<rparr>"
    by code_simp
  have out: "split_ws (strip (stdout \<lparr>returncode = 0, stdout = ''404 0.120''\<rparr>))
      = [''404'', ''0.120'']"
    by code_simp
  have num: "w_int (ex_world ex_run_eth0 ex_env_none) ''404'' = Some 404"
    "w_float (ex_world ex_run_eth0 ex_env_none) ''0.120'' = Some 120"
    by code_simp+
  have ok: "fst (curl_head_via_iface (ex_world ex_run_eth0 ex_env_none) ''eth0''
      ''https://example.org'' 6)"
    using curl_head_reachable_iff
      [of "ex_world ex_run_eth0 ex_env_none" "''eth0''" "''https://example.org''" 6]
      run out num by auto
  have val: "curl_head_via_iface (ex_world ex_run_eth0 ex_env_none) ''eth0''
      ''https://example.org'' 6 = (True, Some 120000, Some 404)"
    by code_simp
  have run_down: "w_run (ex_world ex_run_down ex_env_none)
      (curl_head_cmd ''eth0'' ''https://example.org'' 6) (6 + 2)
      = Some \<lparr>returncode = 1, stdout = []\<rparr>"
    by code_simp
  have fail: "curl_head_via_iface (ex_world ex_run_down ex_env_none) ''eth0''
      ''https://example.org'' 6 = (False, None, None)"
    using curl_head_reachable_iff
      [of "ex_world ex_run_down ex_env_none" "''eth0''" "''https://example.org''" 6]
      run_down by auto
  from ok val run_down fail show ?thesis by simp
qed

subsection \<open>Auxiliary facts about the aggregation\<close>

lemma build_results_IFACES:
  "build_results w IFACES =
     [(''eth0'', check_iface w ''eth0''), (''wlan0'', check_iface w ''wlan0'')]"
  by (simp add: build_results_def IFACES_def)

lemma getitem_results:
  "getitem (build_results w IFACES) ''eth0'' = Inr (check_iface w ''eth0'')"
  "getitem (build_results w IFACES) ''wlan0'' = Inr (check_iface w ''wlan0'')"
  by (simp_all add: build_results_IFACES getitem_def)

lemma get_iface_ok_results:
  "get_iface_ok (build_results w IFACES) ''eth0'' = v_iface_ok (check_iface_vars w ''eth0'')"
  "get_iface_ok (build_results w IFACES) ''wlan0'' = v_iface_ok (check_iface_vars w ''wlan0'')"
  by (simp_all add: build_results_IFACES get_iface_ok_def check_iface_def result_dict_def
      int_of_bool_eq)

lemma any_iface_ok_results:
  "any_iface_ok (build_results w IFACES) IFACES =
     Inr (list_ex (\<lambda>i. v_iface_ok (check_iface_vars w i)) IFACES)"
  unfolding IFACES_def
  by (simp add: getitem_results [unfolded IFACES_def] getitem_check_iface int_of_bool_eq)

lemma flatten_results:
  "flatten (build_results w IFACES) IFACES row =
     Inr (add_iface_columns ''wlan0'' (check_iface w ''wlan0'')
            (add_iface_columns ''eth0'' (check_iface w ''eth0'') row))"
  unfolding IFACES_def
  by (simp add: getitem_results [unfolded IFACES_def])

lemma flattened_row:
  "add_iface_columns ''wlan0'' (check_iface w ''wlan0'')
     (add_iface_columns ''eth0'' (check_iface w ''eth0'')
        [(''timestamp'', a), (''overall_ok'', b), (''preferred_iface'', c)]) =
   [(''timestamp'', a), (''overall_ok'', b), (''preferred_iface'', c)]
   @ map (\<lambda>(k, v). (''eth0_'' @ k, v)) (check_iface w ''eth0'')
   @ map (\<lambda>(k, v). (''wlan0_'' @ k, v)) (check_iface w ''wlan0'')"
  by (simp add: add_iface_columns_def check_iface_def result_dict_def)

lemma tick_eval_result:
  "tick_eval w =
     Inr (list_ex (\<lambda>i. v_iface_ok (check_iface_vars w i)) IFACES,
          preferred_iface (build_results w IFACES),
          [(''timestamp'', PStr (w_now w)),
           (''overall_ok'',
            PInt (int_of_bool (list_ex (\<lambda>i. v_iface_ok (check_iface_vars w i)) IFACES))),
           (''preferred_iface'', PStr (preferred_iface (build_results w IFACES)))]
          @ map (\<lambda>(k, v). (''eth0_'' @ k, v)) (check_iface w ''eth0'')
          @ map (\<lambda>(k, v). (''wlan0_'' @ k, v)) (check_iface w ''wlan0''))"
  by (simp add: tick_eval_def Let_def any_iface_ok_results flatten_results flattened_row)

lemma tick_eval_Inr:
  "\<exists>row. tick_eval w =
     Inr (list_ex (\<lambda>i. v_iface_ok (check_iface_vars w i)) IFACES,
          preferred_iface (build_results w IFACES), row)"
  by (simp add: tick_eval_result)

subsection \<open>The aggregation\<close>

text \<open>
  Claim C8. For every world, the loop body computes its overall flag without raising,
  and the flag is true exactly when the healthy flag \<open>iface_ok\<close> of the evaluation of
  some interface of \<open>IFACES\<close> is true: the logical OR over the configured interfaces.
\<close>

theorem overall_is_or:
  "\<exists>preferred row.
     tick_eval w =
       Inr (list_ex (\<lambda>iface. v_iface_ok (check_iface_vars w iface)) IFACES, preferred, row)"
  by (simp add: tick_eval_result)

text \<open>
  Claim C4. For every dictionary of per-interface results, the preferred interface is
  the first name of \<open>IFACES\<close>, in that order, whose entry has \<open>iface_ok = 1\<close>, and
  the empty string when there is none. In a tick of any world it is therefore the first
  configured interface whose evaluation is healthy, a function of the results alone.
\<close>

theorem preferred_is_first_healthy:
  "preferred_iface results =
     (case find (get_iface_ok results) IFACES of Some iface \<Rightarrow> iface | None \<Rightarrow> [])
 \<and> (\<exists>overall_ok row.
       tick_eval w =
         Inr (overall_ok,
              (case find (\<lambda>iface. v_iface_ok (check_iface_vars w iface)) IFACES of
                 Some iface \<Rightarrow> iface | None \<Rightarrow> []),
              row))"
proof -
  have first: "preferred_iface results =
      (case find (get_iface_ok results) IFACES of Some iface \<Rightarrow> iface | None \<Rightarrow> [])"
    by (simp add: preferred_iface_def IFACES_def)
  have "preferred_iface (build_results w IFACES) =
      (case find (\<lambda>iface. v_iface_ok (check_iface_vars w iface)) IFACES of
         Some iface \<Rightarrow> iface | None \<Rightarrow> [])"
    unfolding preferred_iface_def get_iface_ok_results by (simp add: IFACES_def)
  with first show ?thesis
    by (simp add: tick_eval_result)
qed

text \<open>
  Claim C10. For every world and interface name the dictionary of \<open>check_iface\<close> has
  exactly the ten keys \<open>iface_up\<close>, \<open>iface_ipv4\<close>, \<open>gateway\<close>, \<open>local_ok\<close>,
  \<open>gateway_rtt_ms\<close>, \<open>nos_ok\<close>, \<open>nos_status\<close>, \<open>nos_response_ms\<close>,
  \<open>public_ip\<close>, \<open>iface_ok\<close>, in this order; and the flattened row of a tick has,
  in every world, the same 23 columns in the same order: the three leading ones, then
  the ten of \<open>eth0\<close>, then the ten of \<open>wlan0\<close>.
\<close>

theorem fixed_schema:
  "map fst (check_iface w iface) =
     [''iface_up'', ''iface_ipv4'', ''gateway'', ''local_ok'', ''gateway_rtt_ms'', ''nos_ok'',
      ''nos_status'', ''nos_response_ms'', ''public_ip'', ''iface_ok'']
 \<and> (\<exists>overall_ok preferred row.
       tick_eval w = Inr (overall_ok, preferred, row)
     \<and> map fst row =
         [''timestamp'', ''overall_ok'', ''preferred_iface'',
          ''eth0_iface_up'', ''eth0_iface_ipv4'', ''eth0_gateway'', ''eth0_local_ok'',
          ''eth0_gateway_rtt_ms'', ''eth0_nos_ok'', ''eth0_nos_status'', ''eth0_nos_response_ms'',
          ''eth0_public_ip'', ''eth0_iface_ok'',
          ''wlan0_iface_up'', ''wlan0_iface_ipv4'', ''wlan0_gateway'', ''wlan0_local_ok'',
          ''wlan0_gateway_rtt_ms'', ''wlan0_nos_ok'', ''wlan0_nos_status'',
          ''wlan0_nos_response_ms'', ''wlan0_public_ip'', ''wlan0_iface_ok''])"
  by (simp add: tick_eval_result check_iface_def result_dict_def)

subsection \<open>The daily log\<close>

lemma append_row_ok:
  "w_can_open w p \<Longrightarrow>
   append_row w p row files =
     Inr (files(p \<mapsto>
       (case files p of None \<Rightarrow> [header_cells row] | Some old \<Rightarrow> old) @ [row_cells row]))"
  by (simp add: append_row_def Let_def split: option.splits)

lemma append_row_fail:
  "\<not> w_can_open w p \<Longrightarrow> append_row w p row files = Inl (OSError p)"
  by (simp add: append_row_def Let_def)

lemma append_rows_existing:
  "list_all (\<lambda>(w, row). w_can_open w p) calls \<Longrightarrow> files p = Some old \<Longrightarrow>
   append_rows calls p files = Inr (files(p \<mapsto> old @ map (\<lambda>(w, row). row_cells row) calls))"
proof (induction calls arbitrary: files old)
  case Nil
  then show ?case by (simp add: fun_upd_idem)
next
  case (Cons c calls)
  obtain w row where c: "c = (w, row)" by (cases c)
  from Cons.prems c have open_ok: "w_can_open w p"
    and rest: "list_all (\<lambda>(w, row). w_can_open w p) calls"
    by simp_all
  let ?files' = "files(p \<mapsto> old @ [row_cells row])"
  have step: "append_row w p row files = Inr ?files'"
    using open_ok Cons.prems(2) by (simp add: append_row_ok)
  have "append_rows calls p ?files' =
      Inr (?files'(p \<mapsto> (old @ [row_cells row]) @ map (\<lambda>(w, row). row_cells row) calls))"
    by (rule Cons.IH [OF rest]) simp
  with step c show ?case by (auto simp: fun_upd_def fun_eq_iff)
qed

text \<open>
  Claim C5. Take any number \<open>N \<ge> 1\<close> of calls of \<open>append_row\<close> on one path, each of
  which can open the file. When the file did not exist before the first call, it then
  holds exactly the header of the first record followed by the \<open>N\<close> data rows in call
  order: one header, before the first data row. When it existed, it holds its former
  rows, unchanged, followed by the \<open>N\<close> data rows and no further header.
\<close>

theorem append_row_one_header:
  assumes "list_all (\<lambda>(w, row). w_can_open w csv_path) calls" and "calls \<noteq> []"
  shows "append_rows calls csv_path files =
     Inr (files(csv_path \<mapsto>
        (case files csv_path of
           None \<Rightarrow> [header_cells (snd (hd calls))]
         | Some old \<Rightarrow> old) @ map (\<lambda>(w, row). row_cells row) calls))"
proof (cases calls)
  case Nil
  with assms(2) show ?thesis by simp
next
  case (Cons c rest)
  obtain w row where c: "c = (w, row)" by (cases c)
  from assms(1) Cons c have open_ok: "w_can_open w csv_path"
    and rest_ok: "list_all (\<lambda>(w, row). w_can_open w csv_path) rest"
    by simp_all
  let ?start = "(case files csv_path of None \<Rightarrow> [header_cells row] | Some old \<Rightarrow> old)"
  let ?files' = "files(csv_path \<mapsto> ?start @ [row_cells row])"
  have step: "append_row w csv_path row files = Inr ?files'"
    using open_ok by (rule append_row_ok)
  have "append_rows rest csv_path ?files' =
      Inr (?files'(csv_path \<mapsto>
        (?start @ [row_cells row]) @ map (\<lambda>(w, row). row_cells row) rest))"
    by (rule append_rows_existing [OF rest_ok]) simp
  with step show ?thesis unfolding Cons c by (simp split: option.split)
qed

theorem append_row_one_header_witness:
  "list_all (\<lambda>(w, row). w_can_open w ''log/netmon_2026-11-04.csv'')
     [(ex_world ex_run_down ex_env_none, ex_row 0), (ex_world ex_run_down ex_env_none, ex_row 1)]
 \<and> (case append_rows
        [(ex_world ex_run_down ex_env_none, ex_row 0), (ex_world ex_run_down ex_env_none, ex_row 1)]
        ''log/netmon_2026-11-04.csv'' Map.empty of
      Inl e \<Rightarrow> None
    | Inr files \<Rightarrow> files ''log/netmon_2026-11-04.csv'')
   = Some [[PStr ''timestamp'', PStr ''overall_ok''], [PStr ''t'', PInt 0], [PStr ''t'', PInt 1]]"
proof -
  have open_ok: "list_all (\<lambda>(w, row). w_can_open w ''log/netmon_2026-11-04.csv'')
     [(ex_world ex_run_down ex_env_none, ex_row 0), (ex_world ex_run_down ex_env_none, ex_row 1)]"
    by (simp add: ex_world_def)
  have ne: "[(ex_world ex_run_down ex_env_none, ex_row 0),
      (ex_world ex_run_down ex_env_none, ex_row 1)] \<noteq> []"
    by simp
  show ?thesis
    using open_ok append_row_one_header [OF open_ok ne, of Map.empty]
    by (simp add: header_cells_def row_cells_def ex_row_def)
qed

subsection \<open>Auxiliary facts about a tick and about the example worlds\<close>

lemma tick_upload_log:
  "upload_log (fst (tick w log_dir s)) =
     (if list_ex (\<lambda>i. v_iface_ok (check_iface_vars w i)) IFACES
         \<and> w_can_open w (log_path_for_today w log_dir)
         \<and> w_can_open w (log_dir @ ''/netmon_upload.log'')
      then (case azure_upload w (log_path_for_today w log_dir) of
              Inl e \<Rightarrow> upload_log s
            | Inr (ok, msg) \<Rightarrow>
                upload_log s @
                  [audit_line (w_now w) (path_name (log_path_for_today w log_dir)) True
                     (preferred_iface (build_results w IFACES)) ok msg])
      else upload_log s)"
proof -
  obtain row where te: "tick_eval w =
     Inr (list_ex (\<lambda>i. v_iface_ok (check_iface_vars w i)) IFACES,
          preferred_iface (build_results w IFACES), row)"
    using tick_eval_Inr [of w] by blast
  show ?thesis
  proof (cases "w_can_open w (log_path_for_today w log_dir)")
    case False
    then show ?thesis
      by (simp add: tick_def te Let_def append_row_fail)
  next
    case True
    then show ?thesis
      by (simp add: tick_def te Let_def append_row_ok split: sum.splits prod.splits)
  qed
qed

lemma tick_raises:
  "snd (tick w log_dir s) =
     (if \<not> w_can_open w (log_path_for_today w log_dir)
      then Some (OSError (log_path_for_today w log_dir))
      else if list_ex (\<lambda>i. v_iface_ok (check_iface_vars w i)) IFACES
      then (case azure_upload w (log_path_for_today w log_dir) of
              Inl e \<Rightarrow> Some e
            | Inr r \<Rightarrow> None)
      else None)"
proof -
  obtain row where te: "tick_eval w =
     Inr (list_ex (\<lambda>i. v_iface_ok (check_iface_vars w i)) IFACES,
          preferred_iface (build_results w IFACES), row)"
    using tick_eval_Inr [of w] by blast
  show ?thesis
  proof (cases "w_can_open w (log_path_for_today w log_dir)")
    case False
    then show ?thesis
      by (simp add: tick_def te Let_def append_row_fail)
  next
    case True
    then show ?thesis
      by (simp add: tick_def te Let_def append_row_ok split: sum.splits prod.splits)
  qed
qed

text \<open>
  When a container is configured, \<open>azure_upload\<close> does not return: reading the default
  account name raises before the guarded block is entered.
\<close>

lemma azure_upload_cases:
  "azure_upload w local_file =
     (if strip (getenv w ''AZURE_CONTAINER'' []) = [] then Inr (False, ''AZURE_CONTAINER not set'')
      else Inl (NameError ''AZURE_ACCOUNT_DEFAULT''))"
  by (simp add: azure_upload_def azure_upload_body_def AZURE_ACCOUNT_DEFAULT_def Let_def)

text \<open>
  Were the name bound to a string, the body would return a pair in every case, with
  \<open>ok = False\<close> and a message for a missing container, for missing credentials and
  for an exception of the guarded block.
\<close>

lemma azure_upload_body_bound:
  "\<exists>ok msg. azure_upload_body (Inr dflt) w local_file = Inr (ok, msg)"
  "strip (getenv w ''AZURE_CONTAINER'' []) = [] \<Longrightarrow>
     azure_upload_body (Inr dflt) w local_file = Inr (False, ''AZURE_CONTAINER not set'')"
  "strip (getenv w ''AZURE_CONTAINER'' []) \<noteq> [] \<Longrightarrow>
   strip (getenv w ''AZURE_STORAGE_CONNECTION_STRING'' []) = [] \<Longrightarrow>
   strip (getenv w ''AZURE_STORAGE_SAS_TOKEN'' []) = [] \<Longrightarrow>
     azure_upload_body (Inr dflt) w local_file =
       Inr (False, ''No AZURE_STORAGE_CONNECTION_STRING or AZURE_STORAGE_SAS_TOKEN set'')"
  "strip (getenv w ''AZURE_CONTAINER'' []) \<noteq> [] \<Longrightarrow>
   strip (getenv w ''AZURE_STORAGE_CONNECTION_STRING'' []) \<noteq> [] \<Longrightarrow>
   w_blob w (ConnectionString (strip (getenv w ''AZURE_STORAGE_CONNECTION_STRING'' [])))
     (strip (getenv w ''AZURE_CONTAINER'' [])) (path_name local_file) = Some e \<Longrightarrow>
     azure_upload_body (Inr dflt) w local_file = Inr (False, ''Azure upload failed: '' @ e)"
  by (auto simp: azure_upload_body_def blob_attempt_def Let_def split: option.splits)

lemma ex_eth0_healthy: "v_iface_ok (check_iface_vars (ex_world ex_run_eth0 env) ''eth0'')"
  by code_simp

lemma ex_down_unhealthy: "\<not> v_iface_ok (check_iface_vars (ex_world ex_run_down env) iface)"
  by code_simp

lemma ex_world_fields:
  "w_now (ex_world run env) = ''2026-11-04T12:00:00''"
  "w_today (ex_world run env) = ''2026-11-04''"
  "w_can_open (ex_world run env) p"
  "w_getenv (ex_world run env) = env"
  by (simp_all add: ex_world_def)

lemma ex_azure_none:
  "azure_upload (ex_world run ex_env_none) p = Inr (False, ''AZURE_CONTAINER not set'')"
  by (simp add: azure_upload_cases getenv_def ex_world_fields ex_env_none_def strip_def)

lemma ex_azure_raises:
  "azure_upload (ex_world run ex_env_azure) p = Inl (NameError ''AZURE_ACCOUNT_DEFAULT'')"
  by code_simp

lemma ex_path_name:
  "path_name (log_path_for_today (ex_world run env) ''log'') = ''netmon_2026-11-04.csv''"
  by (simp add: path_name_def log_path_for_today_def ex_world_fields)

lemma ex_eth0_overall:
  "list_ex (\<lambda>i. v_iface_ok (check_iface_vars (ex_world ex_run_eth0 env) i)) IFACES"
  by (simp add: IFACES_def ex_eth0_healthy)

lemma ex_down_overall:
  "\<not> list_ex (\<lambda>i. v_iface_ok (check_iface_vars (ex_world ex_run_down env) i)) IFACES"
  by (simp add: IFACES_def ex_down_unhealthy)

lemma ex_eth0_preferred:
  "preferred_iface (build_results (ex_world ex_run_eth0 env) IFACES) = ''eth0''"
  by (simp add: preferred_iface_def get_iface_ok_results ex_eth0_healthy)

lemma ex_eth0_upload_log:
  "upload_log (fst (tick (ex_world ex_run_eth0 ex_env_none) ''log'' ex_sys)) =
     [''2026-11-04T12:00:00 | netmon_2026-11-04.csv | overall_ok=True | preferred=eth0 | False | AZURE_CONTAINER not set''
        @ [CHR 0x0A]]"
  by (simp add: tick_upload_log ex_eth0_overall ex_world_fields ex_azure_none ex_path_name
      ex_eth0_preferred audit_line_def str_bool_def ex_sys_def)

subsection \<open>The upload and its audit log\<close>

text \<open>
  Claim C6. In a tick of any world, from any state: when no interface is healthy,
  \<open>azure_upload\<close> is not called and no line is written to the audit log. When the daily
  file can be opened, then whatever the environment and the blob service do (also when
  the upload raises) the daily file holds, after the tick, its former rows followed by
  the tick's data row (the time stamp, the overall flag, the preferred interface, then
  the fields of \<open>eth0\<close> and of \<open>wlan0\<close>), preceded by that row's header when the
  file is new; no other file changes; and \<open>azure_upload\<close> is called, once and on the daily file, exactly
  when the overall flag is true. When the daily file cannot be opened, the tick ends
  with that error before any upload.
\<close>

theorem upload_only_when_healthy:
  "(\<not> list_ex (\<lambda>iface. v_iface_ok (check_iface_vars w iface)) IFACES \<longrightarrow>
      upload_calls (fst (tick w log_dir s)) = upload_calls s
    \<and> upload_log (fst (tick w log_dir s)) = upload_log s)
 \<and> (w_can_open w (log_path_for_today w log_dir) \<longrightarrow>
      (\<exists>overall_ok preferred row.
          tick_eval w = Inr (overall_ok, preferred, row)
        \<and> overall_ok = list_ex (\<lambda>iface. v_iface_ok (check_iface_vars w iface)) IFACES
        \<and> csv_files (fst (tick w log_dir s)) =
            (csv_files s)(log_path_for_today w log_dir \<mapsto>
               (case csv_files s (log_path_for_today w log_dir) of
                  None \<Rightarrow> [header_cells row]
                | Some old \<Rightarrow> old) @ [row_cells row])
        \<and> row =
            [(''timestamp'', PStr (w_now w)),
             (''overall_ok'', PInt (int_of_bool overall_ok)),
             (''preferred_iface'', PStr preferred)]
            @ map (\<lambda>(k, v). (''eth0_'' @ k, v)) (check_iface w ''eth0'')
            @ map (\<lambda>(k, v). (''wlan0_'' @ k, v)) (check_iface w ''wlan0'')
        \<and> upload_calls (fst (tick w log_dir s))
            = upload_calls s @ (if overall_ok then [log_path_for_today w log_dir] else [])))
 \<and> (\<not> w_can_open w (log_path_for_today w log_dir) \<longrightarrow>
      snd (tick w log_dir s) = Some (OSError (log_path_for_today w log_dir))
    \<and> csv_files (fst (tick w log_dir s)) = csv_files s
    \<and> upload_calls (fst (tick w log_dir s)) = upload_calls s)"
proof -
  define row where "row =
     [(''timestamp'', PStr (w_now w)),
      (''overall_ok'',
       PInt (int_of_bool (list_ex (\<lambda>i. v_iface_ok (check_iface_vars w i)) IFACES))),
      (''preferred_iface'', PStr (preferred_iface (build_results w IFACES)))]
     @ map (\<lambda>(k, v). (''eth0_'' @ k, v)) (check_iface w ''eth0'')
     @ map (\<lambda>(k, v). (''wlan0_'' @ k, v)) (check_iface w ''wlan0'')"
  have te: "tick_eval w =
     Inr (list_ex (\<lambda>i. v_iface_ok (check_iface_vars w i)) IFACES,
          preferred_iface (build_results w IFACES), row)"
    unfolding row_def by (rule tick_eval_result)
  have first: "row =
     [(''timestamp'', PStr (w_now w)),
      (''overall_ok'',
       PInt (int_of_bool (list_ex (\<lambda>i. v_iface_ok (check_iface_vars w i)) IFACES))),
      (''preferred_iface'', PStr (preferred_iface (build_results w IFACES)))]
     @ map (\<lambda>(k, v). (''eth0_'' @ k, v)) (check_iface w ''eth0'')
     @ map (\<lambda>(k, v). (''wlan0_'' @ k, v)) (check_iface w ''wlan0'')"
    by (rule row_def)
  show ?thesis
  proof (cases "w_can_open w (log_path_for_today w log_dir)")
    case False
    then show ?thesis
      by (simp add: tick_def te Let_def append_row_fail)
  next
    case True
    then show ?thesis
      using first
      by (simp add: tick_def te Let_def append_row_ok split: sum.splits prod.splits)
  qed
qed

theorem upload_only_when_healthy_witness:
  "\<not> list_ex (\<lambda>iface. v_iface_ok (check_iface_vars (ex_world ex_run_down ex_env_azure) iface))
       IFACES
 \<and> upload_calls (fst (tick (ex_world ex_run_down ex_env_azure) ''log'' ex_sys))
     = upload_calls ex_sys
 \<and> upload_log (fst (tick (ex_world ex_run_down ex_env_azure) ''log'' ex_sys)) = upload_log ex_sys
 \<and> w_can_open (ex_world ex_run_eth0 ex_env_azure)
      (log_path_for_today (ex_world ex_run_eth0 ex_env_azure) ''log'')
 \<and> snd (tick (ex_world ex_run_eth0 ex_env_azure) ''log'' ex_sys)
     = Some (NameError ''AZURE_ACCOUNT_DEFAULT'')
 \<and> (\<exists>row.
        csv_files (fst (tick (ex_world ex_run_eth0 ex_env_azure) ''log'' ex_sys))
          ''log/netmon_2026-11-04.csv''
          = Some [header_cells row, row_cells row]
      \<and> hd row = (''timestamp'', PStr ''2026-11-04T12:00:00''))
 \<and> upload_calls (fst (tick (ex_world ex_run_eth0 ex_env_azure) ''log'' ex_sys))
     = [''log/netmon_2026-11-04.csv'']"
proof -
  note unhealthy = ex_down_overall [of ex_env_azure]
  have path: "log_path_for_today (ex_world ex_run_eth0 ex_env_azure) ''log''
      = ''log/netmon_2026-11-04.csv''"
    by (simp add: log_path_for_today_def ex_world_fields)
  have can_open: "w_can_open (ex_world ex_run_eth0 ex_env_azure)
      (log_path_for_today (ex_world ex_run_eth0 ex_env_azure) ''log'')"
    by (simp add: ex_world_fields)
  have raised: "snd (tick (ex_world ex_run_eth0 ex_env_azure) ''log'' ex_sys)
      = Some (NameError ''AZURE_ACCOUNT_DEFAULT'')"
    by (simp add: tick_raises ex_azure_raises ex_eth0_overall ex_world_fields)
  from unhealthy upload_only_when_healthy [of "ex_world ex_run_down ex_env_azure" "''log''" ex_sys]
  have a: "upload_calls (fst (tick (ex_world ex_run_down ex_env_azure) ''log'' ex_sys))
      = upload_calls ex_sys
    \<and> upload_log (fst (tick (ex_world ex_run_down ex_env_azure) ''log'' ex_sys))
      = upload_log ex_sys"
    by blast
  from can_open upload_only_when_healthy [of "ex_world ex_run_eth0 ex_env_azure" "''log''" ex_sys]
  obtain overall_ok preferred row where
    te: "tick_eval (ex_world ex_run_eth0 ex_env_azure) = Inr (overall_ok, preferred, row)"
    and ov: "overall_ok
      = list_ex (\<lambda>iface. v_iface_ok (check_iface_vars (ex_world ex_run_eth0 ex_env_azure) iface))
          IFACES"
    and files: "csv_files (fst (tick (ex_world ex_run_eth0 ex_env_azure) ''log'' ex_sys)) =
        (csv_files ex_sys)(log_path_for_today (ex_world ex_run_eth0 ex_env_azure) ''log'' \<mapsto>
           (case csv_files ex_sys (log_path_for_today (ex_world ex_run_eth0 ex_env_azure) ''log'') of
              None \<Rightarrow> [header_cells row]
            | Some old \<Rightarrow> old) @ [row_cells row])"
    and first: "row =
        [(''timestamp'', PStr (w_now (ex_world ex_run_eth0 ex_env_azure))),
         (''overall_ok'', PInt (int_of_bool overall_ok)),
         (''preferred_iface'', PStr preferred)]
        @ map (\<lambda>(k, v). (''eth0_'' @ k, v)) (check_iface (ex_world ex_run_eth0 ex_env_azure) ''eth0'')
        @ map (\<lambda>(k, v). (''wlan0_'' @ k, v)) (check_iface (ex_world ex_run_eth0 ex_env_azure) ''wlan0'')"
    and calls: "upload_calls (fst (tick (ex_world ex_run_eth0 ex_env_azure) ''log'' ex_sys))
        = upload_calls ex_sys
          @ (if overall_ok then [log_path_for_today (ex_world ex_run_eth0 ex_env_azure) ''log'']
             else [])"
    by blast
  from ov have healthy: overall_ok
    by (simp add: ex_eth0_overall)
  have empty: "csv_files ex_sys = Map.empty" "upload_calls ex_sys = []"
    by (simp_all add: ex_sys_def)
  from files have stored: "csv_files (fst (tick (ex_world ex_run_eth0 ex_env_azure) ''log'' ex_sys))
      ''log/netmon_2026-11-04.csv'' = Some [header_cells row, row_cells row]"
    by (simp add: path empty)
  from first have ts: "hd row = (''timestamp'', PStr ''2026-11-04T12:00:00'')"
    by (simp add: ex_world_fields)
  from calls healthy have called:
    "upload_calls (fst (tick (ex_world ex_run_eth0 ex_env_azure) ''log'' ex_sys))
      = [''log/netmon_2026-11-04.csv'']"
    by (simp add: path empty)
  from stored ts have ex: "\<exists>row.
        csv_files (fst (tick (ex_world ex_run_eth0 ex_env_azure) ''log'' ex_sys))
          ''log/netmon_2026-11-04.csv''
          = Some [header_cells row, row_cells row]
      \<and> hd row = (''timestamp'', PStr ''2026-11-04T12:00:00'')"
    by blast
  from unhealthy a can_open raised ex called show ?thesis by blast
qed

text \<open>
  Claim C7, as the source has it. A tick of any world writes to the audit log either
  nothing or one line \<open>timestamp | filename | overall_ok=True | preferred=<iface> |
  <upload_ok> | <message>\<close> ended by a line feed, where \<open><upload_ok>\<close> is \<open>True\<close> or
  \<open>False\<close>: the overall flag is written as the text of the Python boolean, and it is
  \<open>True\<close> on every line because a line is written only when the flag is true.
\<close>

theorem audit_line_overall_True:
  "upload_log (fst (tick w log_dir s)) = upload_log s
 \<or> (\<exists>ok msg.
      upload_log (fst (tick w log_dir s)) =
        upload_log s @
          [w_now w @ '' | '' @ path_name (log_path_for_today w log_dir) @ '' | overall_ok=True''
             @ '' | preferred='' @ preferred_iface (build_results w IFACES)
             @ '' | '' @ str_bool ok @ '' | '' @ msg @ [CHR 0x0A]])"
proof -
  obtain row where te: "tick_eval w =
     Inr (list_ex (\<lambda>i. v_iface_ok (check_iface_vars w i)) IFACES,
          preferred_iface (build_results w IFACES), row)"
    using tick_eval_Inr [of w] by blast
  show ?thesis
    by (auto simp: tick_def te Let_def audit_line_def str_bool_def split: sum.splits prod.splits)
qed

theorem audit_line_overall_True_witness:
  "upload_log (fst (tick (ex_world ex_run_eth0 ex_env_none) ''log'' ex_sys)) \<noteq> upload_log ex_sys
 \<and> (\<exists>ok msg.
      upload_log (fst (tick (ex_world ex_run_eth0 ex_env_none) ''log'' ex_sys)) =
        upload_log ex_sys @
          [w_now (ex_world ex_run_eth0 ex_env_none) @ '' | ''
             @ path_name (log_path_for_today (ex_world ex_run_eth0 ex_env_none) ''log'')
             @ '' | overall_ok=True'' @ '' | preferred=''
             @ preferred_iface (build_results (ex_world ex_run_eth0 ex_env_none) IFACES)
             @ '' | '' @ str_bool ok @ '' | '' @ msg @ [CHR 0x0A]])"
proof -
  have changed: "upload_log (fst (tick (ex_world ex_run_eth0 ex_env_none) ''log'' ex_sys))
      \<noteq> upload_log ex_sys"
    unfolding ex_eth0_upload_log by (simp add: ex_sys_def)
  with audit_line_overall_True [of "ex_world ex_run_eth0 ex_env_none" "''log''" ex_sys]
  show ?thesis by blast
qed

text \<open>
  Claim C7 as stated fails. In the world where \<open>eth0\<close> is healthy and no container is
  configured, the tick writes the line below; its third field is \<open>overall_ok=True\<close>,
  neither \<open>overall_ok=0\<close> nor \<open>overall_ok=1\<close>.
\<close>

theorem audit_line_counterexample:
  "upload_log (fst (tick (ex_world ex_run_eth0 ex_env_none) ''log'' ex_sys)) =
     [''2026-11-04T12:00:00 | netmon_2026-11-04.csv | overall_ok=True | preferred=eth0 | False | AZURE_CONTAINER not set''
        @ [CHR 0x0A]]
 \<and> \<not> spec_audit_line_format
      (''2026-11-04T12:00:00 | netmon_2026-11-04.csv | overall_ok=True | preferred=eth0 | False | AZURE_CONTAINER not set''
        @ [CHR 0x0A])"
proof
  show "upload_log (fst (tick (ex_world ex_run_eth0 ex_env_none) ''log'' ex_sys)) =
     [''2026-11-04T12:00:00 | netmon_2026-11-04.csv | overall_ok=True | preferred=eth0 | False | AZURE_CONTAINER not set''
        @ [CHR 0x0A]]"
    by (rule ex_eth0_upload_log)
  show "\<not> spec_audit_line_format
      (''2026-11-04T12:00:00 | netmon_2026-11-04.csv | overall_ok=True | preferred=eth0 | False | AZURE_CONTAINER not set''
        @ [CHR 0x0A])"
    by code_simp
qed

text \<open>
  Claim C2 fails on the source. With a container and a connection string in the
  environment, \<open>azure_upload\<close> returns no pair: it raises \<open>NameError\<close>, and the
  exception leaves the tick that called it.
\<close>

theorem azure_upload_name_error:
  "azure_upload (ex_world ex_run_eth0 ex_env_azure) ''log/netmon_2026-11-04.csv''
     = Inl (NameError ''AZURE_ACCOUNT_DEFAULT'')
 \<and> snd (tick (ex_world ex_run_eth0 ex_env_azure) ''log'' ex_sys)
     = Some (NameError ''AZURE_ACCOUNT_DEFAULT'')"
  by (simp add: tick_raises ex_azure_raises ex_eth0_overall ex_world_fields)

end
